theory Spec2Isabelle
  imports Main "HOL-Library.AList" "HOL-Library.Multiset"
begin

section \<open>Values and records of the host language\<close>

text \<open>
  The containers of \<^verbatim>\<open>src/compiler/collections.ts\<close> store values of a type parameter
  \<open>V\<close>. A value read from a container is a value of \<open>V\<close>, or \<open>undefined\<close>. The one
  value that the operator \<open>===\<close> does not identify with itself, \<open>NaN\<close>, is kept apart
  from the other values, which \<open>===\<close> compares by identity.
\<close>

datatype 'v JSValue = Undefined | NaN | Value 'v

definition strictEquals :: "'v JSValue \<Rightarrow> 'v JSValue \<Rightarrow> bool" where
  "strictEquals a b = (a = b \<and> a \<noteq> NaN)"

text \<open>
  A \<open>MapLike<T>\<close> is a plain record. \<open>own\<close> lists its own enumerable properties in
  the order a \<open>for-in\<close> loop enumerates them: a write to an existing key keeps the
  key's place, a write to a new key appends it. \<open>inherited\<close> lists the members the
  record reaches through its prototype, such as \<open>toString\<close> for a record created by a
  literal; they are not enumerable. \<open>Object.create(null)\<close> gives a record with no
  prototype, hence with no inherited member.
\<close>

record 'v MapLike =
  own :: "(string \<times> 'v JSValue) list"
  inherited :: "(string \<times> 'v JSValue) list"

definition createObject_null :: "'v MapLike" where
  "createObject_null = \<lparr>own = [], inherited = []\<rparr>"

text \<open>\<open>key in obj\<close>: own and inherited members alike.\<close>

definition JS_in :: "string \<Rightarrow> 'v MapLike \<Rightarrow> bool" where
  "JS_in key obj = (key \<in> set (map fst (own obj)) \<or> key \<in> set (map fst (inherited obj)))"

text \<open>\<open>hasOwnProperty.call(obj, key)\<close>.\<close>

definition hasOwnProperty :: "'v MapLike \<Rightarrow> string \<Rightarrow> bool" where
  "hasOwnProperty obj key = (key \<in> set (map fst (own obj)))"

text \<open>\<open>obj[key]\<close>: the own property, else the inherited member, else \<open>undefined\<close>.\<close>

definition JS_get :: "'v MapLike \<Rightarrow> string \<Rightarrow> 'v JSValue" where
  "JS_get obj key =
     (case map_of (own obj) key of
        Some v \<Rightarrow> v
      | None \<Rightarrow> (case map_of (inherited obj) key of Some v \<Rightarrow> v | None \<Rightarrow> Undefined))"

text \<open>
  \<open>obj[key] = value\<close> and \<open>delete obj[key]\<close>. The source writes only to records made
  by \<open>createDictionaryModeObject\<close>, where a write creates or overwrites an own property.
\<close>

definition JS_set :: "'v MapLike \<Rightarrow> string \<Rightarrow> 'v JSValue \<Rightarrow> 'v MapLike" where
  "JS_set obj key v = obj\<lparr>own := AList.update key v (own obj)\<rparr>"

definition JS_delete :: "'v MapLike \<Rightarrow> string \<Rightarrow> 'v MapLike" where
  "JS_delete obj key = obj\<lparr>own := AList.delete key (own obj)\<rparr>"

text \<open>The keys a \<open>for (const key in obj)\<close> loop visits, in order.\<close>

definition JS_for_in :: "'v MapLike \<Rightarrow> string list" where
  "JS_for_in obj = map fst (own obj)"

section \<open>The dictionary-mode record and \<open>ShimMap\<close>\<close>

definition createDictionaryModeObject :: "'v MapLike" where
  "createDictionaryModeObject =
     (let map = createObject_null;
          map = JS_set map ''__'' Undefined;
          map = JS_delete map ''__''
      in map)"

text \<open>
  \<open>ShimMap\<close> casts its keys to strings and indexes the record with them. The model
  takes the key as the string that the host indexes with: a string key itself, a number
  key in its decimal form.
\<close>

record 'v ShimMap =
  data :: "'v MapLike"

definition ShimMap_new :: "'v ShimMap" where
  "ShimMap_new = \<lparr>data = createDictionaryModeObject\<rparr>"

definition ShimMap_clear :: "'v ShimMap \<Rightarrow> 'v ShimMap" where
  "ShimMap_clear m = m\<lparr>data := createDictionaryModeObject\<rparr>"

definition ShimMap_has :: "'v ShimMap \<Rightarrow> string \<Rightarrow> bool" where
  "ShimMap_has m key = JS_in key (data m)"

text \<open>\<open>delete\<close> returns whether the key was there, and the map as it is afterwards.\<close>

definition ShimMap_delete :: "'v ShimMap \<Rightarrow> string \<Rightarrow> bool \<times> 'v ShimMap" where
  "ShimMap_delete m key =
     (let had = ShimMap_has m key
      in (had, if had then m\<lparr>data := JS_delete (data m) key\<rparr> else m))"

definition ShimMap_get :: "'v ShimMap \<Rightarrow> string \<Rightarrow> 'v JSValue" where
  "ShimMap_get m key = JS_get (data m) key"

definition ShimMap_set :: "'v ShimMap \<Rightarrow> string \<Rightarrow> 'v JSValue \<Rightarrow> 'v ShimMap" where
  "ShimMap_set m key v = m\<lparr>data := JS_set (data m) key v\<rparr>"

text \<open>
  \<open>forEach(action)\<close>: the action may change the state \<open>'s\<close> of its closure, which is
  threaded through the loop.
\<close>

definition ShimMap_forEach ::
  "('v JSValue \<Rightarrow> string \<Rightarrow> 's \<Rightarrow> 's) \<Rightarrow> 'v ShimMap \<Rightarrow> 's \<Rightarrow> 's" where
  "ShimMap_forEach action m s =
     fold (\<lambda>key s. action (JS_get (data m) key) key s) (JS_for_in (data m)) s"

text \<open>
  \<open>createMap(pairs?)\<close>. \<open>MapCtr\<close> is the host's \<open>Map\<close> where there is one and
  \<open>ShimMap\<close> otherwise. On string keys the host's \<open>Map\<close> has the contract that
  \<open>ShimMap\<close> implements, with entries kept in insertion order, so that one
  representation serves both.
\<close>

definition createMap :: "(string \<times> 'v JSValue) list option \<Rightarrow> 'v ShimMap" where
  "createMap pairs =
     (case pairs of
        None \<Rightarrow> ShimMap_new
      | Some ps \<Rightarrow> fold (\<lambda>(key, v) map. ShimMap_set map key v) ps ShimMap_new)"

text \<open>The operations a caller may run on a map, and a run of them.\<close>

datatype 'v MapOp =
    OpSet string "'v JSValue"
  | OpGet string
  | OpHas string
  | OpDelete string
  | OpClear

fun applyOp :: "'v MapOp \<Rightarrow> 'v ShimMap \<Rightarrow> 'v ShimMap" where
  "applyOp (OpSet key v) m = ShimMap_set m key v"
| "applyOp (OpGet key) m = m"
| "applyOp (OpHas key) m = m"
| "applyOp (OpDelete key) m = snd (ShimMap_delete m key)"
| "applyOp OpClear m = ShimMap_clear m"

definition applyOps :: "'v MapOp list \<Rightarrow> 'v ShimMap \<Rightarrow> 'v ShimMap" where
  "applyOps ops m = fold applyOp ops m"

text \<open>
  What holds of every map the program can build: its record has no prototype, and
  no key occurs twice in it.
\<close>

definition ShimMap_wf :: "'v ShimMap \<Rightarrow> bool" where
  "ShimMap_wf m = (inherited (data m) = [] \<and> distinct (map fst (own (data m))))"

section \<open>\<open>ShimStringSet\<close>\<close>

text \<open>The record of a string set holds the value \<open>true\<close> under each element.\<close>

record ShimStringSet =
  set_data :: "unit MapLike"

definition ShimStringSet_new :: ShimStringSet where
  "ShimStringSet_new = \<lparr>set_data = createDictionaryModeObject\<rparr>"

definition ShimStringSet_add :: "ShimStringSet \<Rightarrow> string \<Rightarrow> ShimStringSet" where
  "ShimStringSet_add s v = s\<lparr>set_data := JS_set (set_data s) v (Value ())\<rparr>"

definition ShimStringSet_clear :: "ShimStringSet \<Rightarrow> ShimStringSet" where
  "ShimStringSet_clear s = s\<lparr>set_data := createDictionaryModeObject\<rparr>"

definition ShimStringSet_has :: "ShimStringSet \<Rightarrow> string \<Rightarrow> bool" where
  "ShimStringSet_has s v = JS_in v (set_data s)"

definition ShimStringSet_delete :: "ShimStringSet \<Rightarrow> string \<Rightarrow> bool \<times> ShimStringSet" where
  "ShimStringSet_delete s v =
     (let had = ShimStringSet_has s v
      in (had, if had then s\<lparr>set_data := JS_delete (set_data s) v\<rparr> else s))"

definition ShimStringSet_forEach :: "(string \<Rightarrow> 's \<Rightarrow> 's) \<Rightarrow> ShimStringSet \<Rightarrow> 's \<Rightarrow> 's" where
  "ShimStringSet_forEach action s st = fold action (JS_for_in (set_data s)) st"

definition ShimStringSet_isEmpty :: "ShimStringSet \<Rightarrow> bool" where
  "ShimStringSet_isEmpty s = (case JS_for_in (set_data s) of [] \<Rightarrow> True | _ # _ \<Rightarrow> False)"

definition createSet :: ShimStringSet where
  "createSet = ShimStringSet_new"

section \<open>Iteration and query primitives\<close>

text \<open>
  The iterators of the host's ES6 \<open>Map\<close>: \<open>entries()\<close>, \<open>keys()\<close> and
  \<open>values()\<close> yield the entries in the order \<open>forEach\<close> visits them. An iterator
  is the list of the items it has still to yield; \<open>next()\<close> takes its head, and is
  \<open>done\<close> on the empty list.
\<close>

definition Map_entries :: "'v ShimMap \<Rightarrow> (string \<times> 'v JSValue) list" where
  "Map_entries m = map (\<lambda>key. (key, JS_get (data m) key)) (JS_for_in (data m))"

definition Map_keys :: "'v ShimMap \<Rightarrow> string list" where
  "Map_keys m = map fst (Map_entries m)"


text \<open>
  \<open>findInMap\<close>, with ES6 native maps: the \<open>while (true)\<close> loop over the iterator.
  Beside the result, the model returns \<open>calls\<close>, the entries that \<open>getResult\<close> was
  applied to, in the order of the calls, and \<open>visited\<close>, the number of entries that
  the iteration has reached: those that \<open>next()\<close> has yielded here, those that
  \<open>forEach\<close> has passed to its callback below.
\<close>

fun findInMap_iter ::
  "('v JSValue \<Rightarrow> string \<Rightarrow> 'u JSValue) \<Rightarrow> (string \<times> 'v JSValue) list \<Rightarrow>
   (string \<times> 'v JSValue) list \<Rightarrow> nat \<Rightarrow> 'u JSValue \<times> (string \<times> 'v JSValue) list \<times> nat" where
  "findInMap_iter f [] calls visited = (Undefined, calls, visited)"
| "findInMap_iter f ((key, v) # iter) calls visited =
     (let visited = Suc visited;
          result = f v key;
          calls = calls @ [(key, v)]
      in if \<not> strictEquals result Undefined then (result, calls, visited)
         else findInMap_iter f iter calls visited)"

text \<open>
  \<open>findInMap\<close>, selected once by \<open>usingES6NativeMaps\<close>. Without ES6 native maps it
  runs \<open>forEach\<close> with a callback that applies \<open>getResult\<close> while \<open>result\<close> is
  still \<open>undefined\<close>.
\<close>

definition findInMap ::
  "bool \<Rightarrow> 'v ShimMap \<Rightarrow> ('v JSValue \<Rightarrow> string \<Rightarrow> 'u JSValue) \<Rightarrow>
   'u JSValue \<times> (string \<times> 'v JSValue) list \<times> nat" where
  "findInMap usingES6NativeMaps m f =
     (if usingES6NativeMaps then findInMap_iter f (Map_entries m) [] 0
      else ShimMap_forEach
             (\<lambda>v key (result, calls, visited).
                if strictEquals result Undefined
                then (f v key, calls @ [(key, v)], Suc visited)
                else (result, calls, Suc visited))
             m (Undefined, [], 0))"

fun someInIterator :: "'a list \<Rightarrow> ('a \<Rightarrow> bool) \<Rightarrow> bool" where
  "someInIterator [] predicate = False"
| "someInIterator (v # iterator) predicate =
     (if predicate v then True else someInIterator iterator predicate)"

definition someInMap :: "bool \<Rightarrow> 'v ShimMap \<Rightarrow> ('v JSValue \<Rightarrow> string \<Rightarrow> bool) \<Rightarrow> bool" where
  "someInMap usingES6NativeMaps m predicate =
     (if usingES6NativeMaps
      then someInIterator (Map_entries m) (\<lambda>(key, v). predicate v key)
      else ShimMap_forEach (\<lambda>v key found. found \<or> predicate v key) m False)"

definition someKeyInMap :: "bool \<Rightarrow> 'v ShimMap \<Rightarrow> (string \<Rightarrow> bool) \<Rightarrow> bool" where
  "someKeyInMap usingES6NativeMaps m predicate =
     (if usingES6NativeMaps then someInIterator (Map_keys m) predicate
      else someInMap usingES6NativeMaps m (\<lambda>_ key. predicate key))"

section \<open>Map utilities\<close>

text \<open>
  Functions that change a map return the map as it is afterwards. \<open>getOrUpdate\<close> and
  its variant also return the arguments of the calls they made to \<open>getValue\<close>.
\<close>

definition setAndReturn :: "'v ShimMap \<Rightarrow> string \<Rightarrow> 'v JSValue \<Rightarrow> 'v JSValue \<times> 'v ShimMap" where
  "setAndReturn m key v = (v, ShimMap_set m key v)"

definition getOrUpdate ::
  "'v ShimMap \<Rightarrow> string \<Rightarrow> (string \<Rightarrow> 'v JSValue) \<Rightarrow> 'v JSValue \<times> 'v ShimMap \<times> string list" where
  "getOrUpdate m key getValue =
     (let v = ShimMap_get m key
      in if \<not> strictEquals v Undefined then (v, m, [])
         else (let (r, m') = setAndReturn m key (getValue key) in (r, m', [key])))"

definition getOrUpdateAndAllowUndefined ::
  "'v ShimMap \<Rightarrow> string \<Rightarrow> (string \<Rightarrow> 'v JSValue) \<Rightarrow> 'v JSValue \<times> 'v ShimMap \<times> string list" where
  "getOrUpdateAndAllowUndefined m key getValue =
     (if ShimMap_has m key then (ShimMap_get m key, m, [])
      else (let (r, m') = setAndReturn m key (getValue key) in (r, m', [key])))"

text \<open>\<open>n\<close> calls of \<open>getOrUpdate\<close> in a row on one key: the map and all the calls made.\<close>

fun getOrUpdate_times ::
  "nat \<Rightarrow> 'v ShimMap \<Rightarrow> string \<Rightarrow> (string \<Rightarrow> 'v JSValue) \<Rightarrow> 'v ShimMap \<times> string list" where
  "getOrUpdate_times 0 m key getValue = (m, [])"
| "getOrUpdate_times (Suc n) m key getValue =
     (case getOrUpdate m key getValue of
        (r, m', calls) \<Rightarrow>
          (case getOrUpdate_times n m' key getValue of
             (m'', calls') \<Rightarrow> (m'', calls @ calls')))"

definition tryDelete :: "'v ShimMap \<Rightarrow> string \<Rightarrow> 'v JSValue \<times> 'v ShimMap" where
  "tryDelete m key =
     (let current = ShimMap_get m key
      in if \<not> strictEquals current Undefined then (current, snd (ShimMap_delete m key))
         else (Undefined, m))"

text \<open>
  An argument that is a map, \<open>null\<close> or \<open>undefined\<close>. A map is passed by reference:
  \<open>At a\<close> is the map that the heap holds at address \<open>a\<close>, and \<open>===\<close> on two
  arguments compares the addresses.
\<close>

datatype Ref = Null | Missing | At nat

definition mapsAreEqual ::
  "bool \<Rightarrow> (nat \<Rightarrow> 'v ShimMap) \<Rightarrow> Ref \<Rightarrow> Ref \<Rightarrow>
   ('v JSValue \<Rightarrow> 'v JSValue \<Rightarrow> bool) option \<Rightarrow> bool" where
  "mapsAreEqual usingES6NativeMaps heap left right valuesAreEqual =
     (if left = right then True
      else (case (left, right) of
        (At l, At r) \<Rightarrow>
          (let someInLeftHasNoMatch =
                 someInMap usingES6NativeMaps (heap l)
                   (\<lambda>leftValue leftKey.
                      if \<not> ShimMap_has (heap r) leftKey then True
                      else (let rightValue = ShimMap_get (heap r) leftKey
                            in \<not> (case valuesAreEqual of
                                     Some eq \<Rightarrow> eq leftValue rightValue
                                   | None \<Rightarrow> strictEquals leftValue rightValue)))
           in if someInLeftHasNoMatch then False
              else (let someInRightHasNoMatch =
                          someKeyInMap usingES6NativeMaps (heap r)
                            (\<lambda>rightKey. \<not> ShimMap_has (heap l) rightKey)
                    in \<not> someInRightHasNoMatch))
      | _ \<Rightarrow> False))"

section \<open>Conversion between maps and records\<close>




section \<open>Multi-maps\<close>

text \<open>
  A multi-map is a \<open>Map<K, V[]>\<close>. Its values are arrays, which the program holds by
  reference and changes in place: \<open>table\<close> maps a key to the address of its array,
  \<open>arrays\<close> gives the contents of the array at each address, and \<open>nextArray\<close> is
  the address that the next array literal is given.
\<close>

record 'v MultiMap =
  arrays :: "nat \<Rightarrow> 'v list"
  nextArray :: nat
  table :: "nat ShimMap"

text \<open>
  Modelled from the spec: \<open>unorderedRemoveItem\<close>, which \<open>multiMapRemove\<close> calls and
  which is defined outside \<open>collections.ts\<close>. The spec has it remove the value by
  swapping the last element into its place, without keeping the order of the others;
  the source's comment has it do nothing when the value is not in the array. The first
  occurrence is the one removed.
\<close>

definition unorderedRemoveItem :: "'v list \<Rightarrow> 'v \<Rightarrow> 'v list" where
  "unorderedRemoveItem array item =
     (let i = length (takeWhile (\<lambda>element. element \<noteq> item) array)
      in if i < length array then butlast (array[i := last array]) else array)"

text \<open>
  \<open>multiMapAdd\<close> returns the array, by its address. The test \<open>if (values)\<close> holds of
  an array and fails on \<open>undefined\<close>.
\<close>

definition multiMapAdd :: "'v MultiMap \<Rightarrow> string \<Rightarrow> 'v \<Rightarrow> nat \<times> 'v MultiMap" where
  "multiMapAdd mm key v =
     (case ShimMap_get (table mm) key of
        Value values \<Rightarrow>
          (values, mm\<lparr>arrays := (arrays mm)(values := arrays mm values @ [v])\<rparr>)
      | _ \<Rightarrow>
          (let values = nextArray mm;
               mm = mm\<lparr>arrays := (arrays mm)(values := [v]), nextArray := Suc values\<rparr>;
               (r, t) = setAndReturn (table mm) key (Value values)
           in (values, mm\<lparr>table := t\<rparr>)))"

definition multiMapRemove :: "'v MultiMap \<Rightarrow> string \<Rightarrow> 'v \<Rightarrow> 'v MultiMap" where
  "multiMapRemove mm key v =
     (case ShimMap_get (table mm) key of
        Value values \<Rightarrow>
          (let mm = mm\<lparr>arrays := (arrays mm)(values := unorderedRemoveItem (arrays mm values) v)\<rparr>
           in if length (arrays mm values) = 0
              then mm\<lparr>table := snd (ShimMap_delete (table mm) key)\<rparr>
              else mm)
      | _ \<Rightarrow> mm)"

text \<open>The empty multi-map, and a run of additions and removals from it.\<close>

definition emptyMultiMap :: "'v MultiMap" where
  "emptyMultiMap = \<lparr>arrays = (\<lambda>_. []), nextArray = 0, table = createMap None\<rparr>"

datatype 'v MultiMapOp = Add string 'v | Remove string 'v

fun applyMultiMapOp :: "'v MultiMapOp \<Rightarrow> 'v MultiMap \<Rightarrow> 'v MultiMap" where
  "applyMultiMapOp (Add key v) mm = snd (multiMapAdd mm key v)"
| "applyMultiMapOp (Remove key v) mm = multiMapRemove mm key v"

definition runMultiMap :: "'v MultiMapOp list \<Rightarrow> 'v MultiMap" where
  "runMultiMap ops = fold applyMultiMapOp ops emptyMultiMap"

section \<open>\<open>sortInV8ObjectInsertionOrder\<close>\<close>

definition isDigit :: "char \<Rightarrow> bool" where
  "isDigit c = (c \<in> set ''0123456789'')"

text \<open>The test of the regular expression \<open>/^(0|([1-9]\d*))$/\<close>.\<close>

definition looksLikeNatural :: "string \<Rightarrow> bool" where
  "looksLikeNatural s =
     (s = ''0'' \<or>
      (case s of [] \<Rightarrow> False | c # cs \<Rightarrow> c \<in> set ''123456789'' \<and> list_all isDigit cs))"

definition digitValue :: "char \<Rightarrow> int" where
  "digitValue c = int (length (takeWhile (\<lambda>d. d \<noteq> c) ''0123456789''))"

definition decimalValue :: "string \<Rightarrow> int" where
  "decimalValue ds = foldl (\<lambda>n c. 10 * n + digitValue c) 0 ds"








section \<open>\<open>equalOwnProperties\<close>\<close>

text \<open>\<open>b === undefined\<close> for a boolean \<open>b\<close>: false, whichever boolean it is.\<close>

definition boolean_strictEquals_undefined :: "bool \<Rightarrow> bool" where
  "boolean_strictEquals_undefined b = False"

text \<open>
  The two loops of \<open>equalOwnProperties\<close>, over the keys that \<open>for-in\<close> enumerates:
  false when the loop returns false, true when it runs to its end.
\<close>

fun equalOwnProperties_left ::
  "'v MapLike \<Rightarrow> 'v MapLike \<Rightarrow> ('v JSValue \<Rightarrow> 'v JSValue \<Rightarrow> bool) option \<Rightarrow>
   string list \<Rightarrow> bool" where
  "equalOwnProperties_left left right equalityComparer [] = True"
| "equalOwnProperties_left left right equalityComparer (key # keys) =
     (if hasOwnProperty left key then
        (if boolean_strictEquals_undefined (\<not> hasOwnProperty right key) then False
         else if (case equalityComparer of
                    Some eq \<Rightarrow> \<not> eq (JS_get left key) (JS_get right key)
                  | None \<Rightarrow> \<not> strictEquals (JS_get left key) (JS_get right key))
         then False
         else equalOwnProperties_left left right equalityComparer keys)
      else equalOwnProperties_left left right equalityComparer keys)"

fun equalOwnProperties_right :: "'v MapLike \<Rightarrow> 'v MapLike \<Rightarrow> string list \<Rightarrow> bool" where
  "equalOwnProperties_right left right [] = True"
| "equalOwnProperties_right left right (key # keys) =
     (if hasOwnProperty right key then
        (if \<not> hasOwnProperty left key then False
         else equalOwnProperties_right left right keys)
      else equalOwnProperties_right left right keys)"

text \<open>The records are passed by reference, as the maps of \<open>mapsAreEqual\<close> are.\<close>

definition equalOwnProperties ::
  "(nat \<Rightarrow> 'v MapLike) \<Rightarrow> Ref \<Rightarrow> Ref \<Rightarrow> ('v JSValue \<Rightarrow> 'v JSValue \<Rightarrow> bool) option \<Rightarrow> bool" where
  "equalOwnProperties heap left right equalityComparer =
     (if left = right then True
      else (case (left, right) of
        (At l, At r) \<Rightarrow>
          (if \<not> equalOwnProperties_left (heap l) (heap r) equalityComparer (JS_for_in (heap l))
           then False
           else if \<not> equalOwnProperties_right (heap l) (heap r) (JS_for_in (heap r))
           then False
           else True)
      | _ \<Rightarrow> False))"

section \<open>Auxiliary notions\<close>

text \<open>The callback that \<open>findInMap\<close> hands to \<open>forEach\<close>, on an entry and its state.\<close>

definition findInMap_action ::
  "('v JSValue \<Rightarrow> string \<Rightarrow> 'u JSValue) \<Rightarrow> string \<times> 'v JSValue \<Rightarrow>
   'u JSValue \<times> (string \<times> 'v JSValue) list \<times> nat \<Rightarrow>
   'u JSValue \<times> (string \<times> 'v JSValue) list \<times> nat" where
  "findInMap_action f =
     (\<lambda>(key, v) (result, calls, visited).
        if strictEquals result Undefined then (f v key, calls @ [(key, v)], Suc visited)
        else (result, calls, Suc visited))"

text \<open>An argument that is \<open>null\<close> or \<open>undefined\<close>.\<close>

definition isNullish :: "Ref \<Rightarrow> bool" where
  "isNullish r = (case r of At _ \<Rightarrow> False | _ \<Rightarrow> True)"

text \<open>
  Equality of two values as \<open>mapsAreEqual\<close> decides it: by \<open>valuesAreEqual\<close> when
  that is given, by \<open>===\<close> when it is left out.
\<close>

definition valuesEqual ::
  "('v JSValue \<Rightarrow> 'v JSValue \<Rightarrow> bool) option \<Rightarrow> 'v JSValue \<Rightarrow> 'v JSValue \<Rightarrow> bool" where
  "valuesEqual valuesAreEqual a b =
     (case valuesAreEqual of Some eq \<Rightarrow> eq a b | None \<Rightarrow> strictEquals a b)"

text \<open>
  What holds of every multi-map built from the empty one: each key has an array of
  its own, allocated before, and that array is not empty.
\<close>

fun liveArray :: "'v MultiMap \<Rightarrow> nat JSValue \<Rightarrow> bool" where
  "liveArray mm (Value a) = (a < nextArray mm \<and> arrays mm a \<noteq> [])"
| "liveArray mm _ = False"

definition MultiMap_inv :: "'v MultiMap \<Rightarrow> bool" where
  "MultiMap_inv mm =
     (ShimMap_wf (table mm) \<and>
      (\<forall>p \<in> set (own (data (table mm))). liveArray mm (snd p)) \<and>
      distinct (map snd (own (data (table mm)))))"

section \<open>Basic facts\<close>

lemma createDictionaryModeObject_eq:
  "createDictionaryModeObject = \<lparr>own = [], inherited = []\<rparr>"
  by (simp add: createDictionaryModeObject_def createObject_null_def JS_set_def JS_delete_def)

lemma ShimMap_new_wf: "ShimMap_wf ShimMap_new"
  by (simp add: ShimMap_wf_def ShimMap_new_def createDictionaryModeObject_eq)

lemma ShimMap_set_wf: "ShimMap_wf m \<Longrightarrow> ShimMap_wf (ShimMap_set m key v)"
  by (simp add: ShimMap_wf_def ShimMap_set_def JS_set_def distinct_update)

lemma ShimMap_delete_wf: "ShimMap_wf m \<Longrightarrow> ShimMap_wf (snd (ShimMap_delete m key))"
  by (simp add: ShimMap_wf_def ShimMap_delete_def JS_delete_def distinct_delete Let_def)

lemma ShimMap_clear_wf: "ShimMap_wf (ShimMap_clear m)"
  by (simp add: ShimMap_wf_def ShimMap_clear_def createDictionaryModeObject_eq)

lemma applyOp_wf: "ShimMap_wf m \<Longrightarrow> ShimMap_wf (applyOp op m)"
  by (cases op) (simp_all add: ShimMap_set_wf ShimMap_delete_wf ShimMap_clear_wf)

lemma fold_applyOp_wf: "ShimMap_wf m \<Longrightarrow> ShimMap_wf (fold applyOp ops m)"
  by (induction ops arbitrary: m) (simp_all add: applyOp_wf)

lemma applyOps_wf: "ShimMap_wf m \<Longrightarrow> ShimMap_wf (applyOps ops m)"
  by (simp add: applyOps_def fold_applyOp_wf)

lemma fold_set_wf:
  "ShimMap_wf m \<Longrightarrow> ShimMap_wf (fold (\<lambda>(key, v) map. ShimMap_set map key v) ps m)"
  by (induction ps arbitrary: m) (auto simp: ShimMap_set_wf)

lemma createMap_wf: "ShimMap_wf (createMap pairs)"
  by (cases pairs) (simp_all add: createMap_def ShimMap_new_wf fold_set_wf)

lemma ShimMap_get_set_same: "ShimMap_get (ShimMap_set m key v) key = v"
  by (simp add: ShimMap_get_def ShimMap_set_def JS_get_def JS_set_def update_conv')

lemma ShimMap_get_set_other:
  "key' \<noteq> key \<Longrightarrow> ShimMap_get (ShimMap_set m key v) key' = ShimMap_get m key'"
  by (simp add: ShimMap_get_def ShimMap_set_def JS_get_def JS_set_def update_conv'
      split: option.splits)

lemma ShimMap_has_wf: "ShimMap_wf m \<Longrightarrow> ShimMap_has m key = (key \<in> fst ` set (own (data m)))"
  by (simp add: ShimMap_wf_def ShimMap_has_def JS_in_def)

lemma ShimMap_get_wf:
  "ShimMap_wf m \<Longrightarrow>
   ShimMap_get m key = (case map_of (own (data m)) key of Some v \<Rightarrow> v | None \<Rightarrow> Undefined)"
  by (simp add: ShimMap_wf_def ShimMap_get_def JS_get_def split: option.splits)

lemma ShimMap_get_absent:
  assumes "ShimMap_wf m" and "\<not> ShimMap_has m key"
  shows "ShimMap_get m key = Undefined"
proof -
  from assms have "key \<notin> fst ` set (own (data m))"
    by (simp add: ShimMap_has_wf)
  then have "map_of (own (data m)) key = None"
    by (simp add: map_of_eq_None_iff)
  with assms(1) show ?thesis
    by (simp add: ShimMap_get_wf)
qed

lemma ShimMap_get_delete_same:
  "ShimMap_wf m \<Longrightarrow> ShimMap_get (snd (ShimMap_delete m key)) key = Undefined"
proof (cases "ShimMap_has m key")
  case True
  assume "ShimMap_wf m"
  with True show ?thesis
    by (simp add: ShimMap_delete_def ShimMap_get_def JS_get_def JS_delete_def delete_conv'
        ShimMap_wf_def)
next
  case False
  assume "ShimMap_wf m"
  with False show ?thesis
    by (simp add: ShimMap_delete_def ShimMap_get_absent)
qed

section \<open>Reading back what was written\<close>

text \<open>
  Claim C1. Take any map made by \<open>createMap\<close> and run any sequence of \<open>set\<close>,
  \<open>get\<close>, \<open>has\<close>, \<open>delete\<close> and \<open>clear\<close> on it. Then \<open>get(k)\<close> right after
  \<open>set(k, v)\<close> returns \<open>v\<close>, and \<open>get(k)\<close> right after \<open>delete(k)\<close> returns
  \<open>undefined\<close>.
\<close>

theorem C1_get_after_set_and_delete:
  "ShimMap_get (ShimMap_set (applyOps ops (createMap pairs)) k v) k = v \<and>
   ShimMap_get (snd (ShimMap_delete (applyOps ops (createMap pairs)) k)) k = Undefined"
  by (simp add: ShimMap_get_set_same ShimMap_get_delete_same applyOps_wf createMap_wf)

section \<open>Membership sees own keys only\<close>

lemma strictEquals_Undefined [simp]: "strictEquals x Undefined = (x = Undefined)"
  by (auto simp: strictEquals_def)

lemma ShimMap_has_set: "ShimMap_has (ShimMap_set m key v) key' = (key' = key \<or> ShimMap_has m key')"
  by (auto simp: ShimMap_has_def ShimMap_set_def JS_in_def JS_set_def dom_update)

lemma keys_delete: "fst ` set (AList.delete k al) = fst ` set al - {k}"
  by (induction al) auto

lemma ShimMap_has_delete:
  "ShimMap_wf m \<Longrightarrow> ShimMap_has (snd (ShimMap_delete m key)) key' = (key' \<noteq> key \<and> ShimMap_has m key')"
proof (cases "ShimMap_has m key")
  case True
  assume wf: "ShimMap_wf m"
  have "ShimMap_has (snd (ShimMap_delete m key)) key' =
        (key' \<in> fst ` set (AList.delete key (own (data m))))"
    using wf True ShimMap_has_wf [OF ShimMap_delete_wf [OF wf, of key], of key']
    by (simp add: ShimMap_delete_def JS_delete_def)
  then show ?thesis
    using wf by (simp add: keys_delete ShimMap_has_wf conj_commute)
next
  case False
  assume wf: "ShimMap_wf m"
  from False have "key' \<noteq> key \<or> \<not> ShimMap_has m key'"
    by blast
  with False show ?thesis
    by (auto simp: ShimMap_delete_def)
qed

lemma ShimMap_has_clear: "\<not> ShimMap_has (ShimMap_clear m) key"
  by (simp add: ShimMap_has_def ShimMap_clear_def JS_in_def createDictionaryModeObject_eq)

lemma ShimMap_has_new: "\<not> ShimMap_has ShimMap_new key"
  by (simp add: ShimMap_has_def ShimMap_new_def JS_in_def createDictionaryModeObject_eq)

lemma has_fold_set:
  "ShimMap_has (fold (\<lambda>(key, v) map. ShimMap_set map key v) ps m) k =
     (k \<in> fst ` set ps \<or> ShimMap_has m k)"
  by (induction ps arbitrary: m) (auto simp: ShimMap_has_set)

lemma has_applyOp:
  "ShimMap_wf m \<Longrightarrow> \<not> ShimMap_has m k \<Longrightarrow> (\<forall>v. op \<noteq> OpSet k v) \<Longrightarrow> \<not> ShimMap_has (applyOp op m) k"
  by (cases op) (auto simp: ShimMap_has_set ShimMap_has_delete ShimMap_has_clear)

lemma has_fold_applyOp:
  "ShimMap_wf m \<Longrightarrow> \<not> ShimMap_has m k \<Longrightarrow> (\<forall>v. OpSet k v \<notin> set ops) \<Longrightarrow>
   \<not> ShimMap_has (fold applyOp ops m) k"
proof (induction ops arbitrary: m)
  case Nil
  then show ?case by simp
next
  case (Cons op ops)
  have "\<not> ShimMap_has (applyOp op m) k"
    using Cons.prems by (intro has_applyOp) auto
  moreover have "ShimMap_wf (applyOp op m)"
    using Cons.prems by (simp add: applyOp_wf)
  ultimately show ?case
    using Cons.IH [of "applyOp op m"] Cons.prems by simp
qed

lemma ShimStringSet_has_add:
  "ShimStringSet_has (ShimStringSet_add s v) k = (k = v \<or> ShimStringSet_has s k)"
  by (auto simp: ShimStringSet_has_def ShimStringSet_add_def JS_in_def JS_set_def dom_update)

lemma ShimStringSet_has_fold_add:
  "ShimStringSet_has (fold (\<lambda>v s. ShimStringSet_add s v) vs s) k = (k \<in> set vs \<or> ShimStringSet_has s k)"
  by (induction vs arbitrary: s) (auto simp: ShimStringSet_has_add)

lemma createSet_has: "\<not> ShimStringSet_has createSet k"
  by (simp add: createSet_def ShimStringSet_new_def ShimStringSet_has_def JS_in_def
      createDictionaryModeObject_eq)

lemma inherited_member_in:
  "key \<in> fst ` set inh \<Longrightarrow> JS_in key \<lparr>own = [], inherited = inh\<rparr>"
  by (simp add: JS_in_def)

text \<open>
  Claim C9. A map or set that has just been created answers \<open>has(k)\<close> with false for
  every key \<open>k\<close>, also for a name such as \<open>toString\<close> that a record with a
  prototype inherits (\<open>inherited_member_in\<close> shows what \<open>in\<close> answers there). The same
  holds after any run of operations that never inserts \<open>k\<close>: the record of a map or
  set has no prototype, so \<open>in\<close> sees own keys only.
\<close>

theorem C9_has_sees_own_keys_only:
  "\<not> ShimMap_has (createMap None) k \<and>
   \<not> ShimStringSet_has createSet k \<and>
   (k \<notin> fst ` set ps \<and> (\<forall>v. OpSet k v \<notin> set ops) \<longrightarrow>
      \<not> ShimMap_has (applyOps ops (createMap (Some ps))) k) \<and>
   (k \<notin> set vs \<longrightarrow>
      \<not> ShimStringSet_has (fold (\<lambda>v s. ShimStringSet_add s v) vs createSet) k)"
proof (intro conjI impI)
  show "\<not> ShimMap_has (createMap None) k"
    by (simp add: createMap_def ShimMap_has_new)
  show "\<not> ShimStringSet_has createSet k"
    by (rule createSet_has)
  show "\<not> ShimMap_has (applyOps ops (createMap (Some ps))) k"
    if "k \<notin> fst ` set ps \<and> (\<forall>v. OpSet k v \<notin> set ops)"
    unfolding applyOps_def
  proof (rule has_fold_applyOp)
    show "ShimMap_wf (createMap (Some ps))" by (rule createMap_wf)
    show "\<not> ShimMap_has (createMap (Some ps)) k"
      using that by (simp add: createMap_def has_fold_set ShimMap_has_new)
    show "\<forall>v. OpSet k v \<notin> set ops" using that by blast
  qed
  show "\<not> ShimStringSet_has (fold (\<lambda>v s. ShimStringSet_add s v) vs createSet) k"
    if "k \<notin> set vs"
    using that by (simp add: ShimStringSet_has_fold_add createSet_has)
qed

text \<open>
  The claim at the key \<open>toString\<close>, while other inherited names are inserted.
\<close>

theorem C9_has_sees_own_keys_only_witness:
  "\<not> ShimMap_has (createMap None) ''toString'' \<and>
   \<not> ShimStringSet_has createSet ''toString'' \<and>
   \<not> ShimMap_has
       (applyOps [OpSet ''hasOwnProperty'' Undefined, OpDelete ''a'']
          (createMap (Some [(''a'', Value True)]))) ''toString'' \<and>
   \<not> ShimStringSet_has
       (fold (\<lambda>v s. ShimStringSet_add s v) [''constructor''] createSet) ''toString''"
  using C9_has_sees_own_keys_only [of "''toString''" "[(''a'', Value True)]"
      "[OpSet ''hasOwnProperty'' Undefined, OpDelete ''a'']" "[''constructor'']"]
  by simp

section \<open>\<open>getOrUpdate\<close> and \<open>tryDelete\<close>\<close>

lemma ShimMap_set_set: "ShimMap_set (ShimMap_set m k v) k w = ShimMap_set m k w"
  by (simp add: ShimMap_set_def JS_set_def)

lemma getOrUpdate_present:
  "ShimMap_get m k \<noteq> Undefined \<Longrightarrow> getOrUpdate m k f = (ShimMap_get m k, m, [])"
  by (simp add: getOrUpdate_def Let_def)

lemma getOrUpdate_absent:
  "ShimMap_get m k = Undefined \<Longrightarrow> getOrUpdate m k f = (f k, ShimMap_set m k (f k), [k])"
  by (simp add: getOrUpdate_def Let_def setAndReturn_def)

lemma getOrUpdate_times_present:
  "ShimMap_get m k \<noteq> Undefined \<Longrightarrow> getOrUpdate_times n m k f = (m, [])"
  by (induction n) (simp_all add: getOrUpdate_present)

lemma getOrUpdate_times_once:
  "f k \<noteq> Undefined \<Longrightarrow> length (snd (getOrUpdate_times n m k f)) \<le> 1"
proof (cases n)
  case 0
  then show ?thesis by simp
next
  case (Suc n')
  assume fk: "f k \<noteq> Undefined"
  show ?thesis
  proof (cases "ShimMap_get m k = Undefined")
    case True
    have "ShimMap_get (ShimMap_set m k (f k)) k \<noteq> Undefined"
      using fk by (simp add: ShimMap_get_set_same)
    then have "getOrUpdate_times n' (ShimMap_set m k (f k)) k f = (ShimMap_set m k (f k), [])"
      by (rule getOrUpdate_times_present)
    with True Suc show ?thesis
      by (simp add: getOrUpdate_absent)
  next
    case False
    then show ?thesis
      by (simp add: getOrUpdate_times_present)
  qed
qed

lemma getOrUpdate_times_undefined:
  "ShimMap_get m k = Undefined \<Longrightarrow> f k = Undefined \<Longrightarrow>
   snd (getOrUpdate_times n m k f) = replicate n k"
proof (induction n arbitrary: m)
  case 0
  then show ?case by simp
next
  case (Suc n)
  have "ShimMap_get (ShimMap_set m k (f k)) k = Undefined"
    using Suc.prems by (simp add: ShimMap_get_set_same)
  then have "snd (getOrUpdate_times n (ShimMap_set m k (f k)) k f) = replicate n k"
    using Suc.prems by (intro Suc.IH)
  then show ?case
    using Suc.prems by (simp add: getOrUpdate_absent case_prod_beta)
qed

text \<open>
  Claim C3. \<open>getOrUpdate\<close> returns the stored value, and calls nothing, when
  \<open>get(k)\<close> is not \<open>undefined\<close>; otherwise it calls \<open>getValue(k)\<close> once, stores the
  result under \<open>k\<close> and returns it. Any number of calls in a row make at most one call
  of \<open>getValue\<close> when its result is not \<open>undefined\<close>, and one call each when it is.
  A key that holds \<open>undefined\<close> makes \<open>getOrUpdate\<close> call \<open>getValue\<close> again, whereas
  \<open>getOrUpdateAndAllowUndefined\<close> asks \<open>has(k)\<close> and returns the stored \<open>undefined\<close>
  without a call.
\<close>

theorem C3_getOrUpdate:
  "(ShimMap_get m k \<noteq> Undefined \<longrightarrow> getOrUpdate m k f = (ShimMap_get m k, m, [])) \<and>
   (ShimMap_get m k = Undefined \<longrightarrow> getOrUpdate m k f = (f k, ShimMap_set m k (f k), [k])) \<and>
   (f k \<noteq> Undefined \<longrightarrow> length (snd (getOrUpdate_times n m k f)) \<le> 1) \<and>
   (ShimMap_get m k = Undefined \<and> f k = Undefined \<longrightarrow>
      snd (getOrUpdate_times n m k f) = replicate n k) \<and>
   getOrUpdate (ShimMap_set m k Undefined) k f = (f k, ShimMap_set m k (f k), [k]) \<and>
   (ShimMap_has m k \<longrightarrow> getOrUpdateAndAllowUndefined m k f = (ShimMap_get m k, m, [])) \<and>
   (\<not> ShimMap_has m k \<longrightarrow>
      getOrUpdateAndAllowUndefined m k f = (f k, ShimMap_set m k (f k), [k])) \<and>
   getOrUpdateAndAllowUndefined (ShimMap_set m k Undefined) k f =
     (Undefined, ShimMap_set m k Undefined, [])"
proof (intro conjI impI)
  show "getOrUpdate (ShimMap_set m k Undefined) k f = (f k, ShimMap_set m k (f k), [k])"
    by (simp add: getOrUpdate_absent ShimMap_get_set_same ShimMap_set_set)
  show "getOrUpdateAndAllowUndefined (ShimMap_set m k Undefined) k f =
     (Undefined, ShimMap_set m k Undefined, [])"
    by (simp add: getOrUpdateAndAllowUndefined_def ShimMap_has_set ShimMap_get_set_same)
  show "length (snd (getOrUpdate_times n m k f)) \<le> 1" if "f k \<noteq> Undefined"
    using that by (rule getOrUpdate_times_once)
  show "snd (getOrUpdate_times n m k f) = replicate n k"
    if "ShimMap_get m k = Undefined \<and> f k = Undefined"
    using that by (simp add: getOrUpdate_times_undefined)
qed (simp_all add: getOrUpdate_present getOrUpdate_absent
      getOrUpdateAndAllowUndefined_def setAndReturn_def)

text \<open>
  The claim on a map that holds a value under the key and on an empty map.
\<close>

theorem C3_getOrUpdate_witness:
  "getOrUpdate (ShimMap_set ShimMap_new ''a'' (Value False)) ''a'' (\<lambda>_. Value True) =
     (Value False, ShimMap_set ShimMap_new ''a'' (Value False), []) \<and>
   getOrUpdate ShimMap_new ''a'' (\<lambda>_. Value True) =
     (Value True, ShimMap_set ShimMap_new ''a'' (Value True), [''a'']) \<and>
   length (snd (getOrUpdate_times 3 ShimMap_new ''a'' (\<lambda>_. Value True))) \<le> 1 \<and>
   snd (getOrUpdate_times 3 ShimMap_new ''a'' (\<lambda>_. Undefined :: bool JSValue)) =
     replicate 3 ''a'' \<and>
   getOrUpdateAndAllowUndefined (ShimMap_set ShimMap_new ''a'' (Value False)) ''a''
     (\<lambda>_. Value True) = (Value False, ShimMap_set ShimMap_new ''a'' (Value False), []) \<and>
   getOrUpdateAndAllowUndefined ShimMap_new ''a'' (\<lambda>_. Value True) =
     (Value True, ShimMap_set ShimMap_new ''a'' (Value True), [''a''])"
proof -
  let ?new = "ShimMap_new :: bool ShimMap"
  let ?one = "ShimMap_set ?new ''a'' (Value False)"
  have g1: "ShimMap_get ?one ''a'' = Value False" and h1: "ShimMap_has ?one ''a''"
    by (simp_all add: ShimMap_get_set_same ShimMap_has_set)
  have g0: "ShimMap_get ?new ''a'' = Undefined" and h0: "\<not> ShimMap_has ?new ''a''"
    by (simp_all add: ShimMap_has_new ShimMap_get_absent ShimMap_new_wf)
  show ?thesis
    using C3_getOrUpdate [of ?one "''a''" "\<lambda>_. Value True" 3]
      C3_getOrUpdate [of ?new "''a''" "\<lambda>_. Value True" 3]
      C3_getOrUpdate [of ?new "''a''" "\<lambda>_. Undefined" 3]
    by (simp add: g1 h1 g0 h0)
qed

lemma ShimMap_get_delete_other:
  "key' \<noteq> key \<Longrightarrow> ShimMap_get (snd (ShimMap_delete m key)) key' = ShimMap_get m key'"
  by (simp add: ShimMap_delete_def Let_def ShimMap_get_def JS_get_def JS_delete_def
      split: option.splits)

text \<open>
  Claim C8. When \<open>get(k)\<close> is not \<open>undefined\<close>, \<open>tryDelete\<close> returns that value and
  removes \<open>k\<close>, leaving every other key as it was. Otherwise it returns \<open>undefined\<close>
  and the map is unchanged, so that a key that holds \<open>undefined\<close> is still present.
\<close>

theorem C8_tryDelete:
  assumes "ShimMap_wf m"
  shows "(ShimMap_get m k \<noteq> Undefined \<longrightarrow>
            fst (tryDelete m k) = ShimMap_get m k \<and>
            \<not> ShimMap_has (snd (tryDelete m k)) k \<and>
            ShimMap_get (snd (tryDelete m k)) k = Undefined \<and>
            (\<forall>k'. k' \<noteq> k \<longrightarrow>
               ShimMap_has (snd (tryDelete m k)) k' = ShimMap_has m k' \<and>
               ShimMap_get (snd (tryDelete m k)) k' = ShimMap_get m k')) \<and>
         (ShimMap_get m k = Undefined \<longrightarrow> tryDelete m k = (Undefined, m)) \<and>
         (ShimMap_has m k \<and> ShimMap_get m k = Undefined \<longrightarrow> ShimMap_has (snd (tryDelete m k)) k)"
  using assms
  by (simp add: tryDelete_def Let_def ShimMap_has_delete ShimMap_get_delete_same
      ShimMap_get_delete_other)

text \<open>
  The claim on a map with a value under \<open>a\<close> and \<open>undefined\<close> under \<open>b\<close>.
\<close>

theorem C8_tryDelete_witness:
  "fst (tryDelete (createMap (Some [(''a'', Value (1::nat)), (''b'', Undefined)])) ''a'') = Value 1 \<and>
   \<not> ShimMap_has (snd (tryDelete (createMap (Some [(''a'', Value (1::nat)), (''b'', Undefined)])) ''a'')) ''a'' \<and>
   tryDelete (createMap (Some [(''a'', Value (1::nat)), (''b'', Undefined)])) ''b'' =
     (Undefined, createMap (Some [(''a'', Value 1), (''b'', Undefined)])) \<and>
   ShimMap_has (snd (tryDelete (createMap (Some [(''a'', Value (1::nat)), (''b'', Undefined)])) ''b'')) ''b''"
proof -
  let ?m = "createMap (Some [(''a'', Value (1::nat)), (''b'', Undefined)])"
  have "ShimMap_get ?m ''a'' = Value 1" and "ShimMap_get ?m ''b'' = Undefined"
    and "ShimMap_has ?m ''b''"
    by (simp_all add: createMap_def ShimMap_get_set_same ShimMap_get_set_other ShimMap_has_set)
  then show ?thesis
    using C8_tryDelete [OF createMap_wf, of "Some [(''a'', Value (1::nat)), (''b'', Undefined)]" "''a''"]
      C8_tryDelete [OF createMap_wf, of "Some [(''a'', Value (1::nat)), (''b'', Undefined)]" "''b''"]
    by simp
qed

section \<open>\<open>findInMap\<close>\<close>

lemma Map_entries_wf: "ShimMap_wf m \<Longrightarrow> Map_entries m = own (data m)"
  unfolding Map_entries_def JS_for_in_def JS_get_def ShimMap_wf_def map_map
  by (rule map_idI) (auto simp: map_of_is_SomeI)

lemma forEach_entries:
  "ShimMap_forEach action m s = fold (\<lambda>(key, v) s. action v key s) (Map_entries m) s"
  by (simp add: ShimMap_forEach_def Map_entries_def fold_map comp_def)

lemma findInMap_iter_none:
  "\<forall>(key, v) \<in> set es. f v key = Undefined \<Longrightarrow>
   findInMap_iter f es calls visited = (Undefined, calls @ es, visited + length es)"
  by (induction es arbitrary: calls visited) auto

lemma findInMap_iter_hit:
  "\<forall>(key', v') \<in> set pre. f v' key' = Undefined \<Longrightarrow> f v key \<noteq> Undefined \<Longrightarrow>
   findInMap_iter f (pre @ (key, v) # post) calls visited =
     (f v key, calls @ pre @ [(key, v)], Suc (visited + length pre))"
  by (induction pre arbitrary: calls visited) auto

lemma fold_action_none:
  "\<forall>(key, v) \<in> set es. f v key = Undefined \<Longrightarrow>
   fold (findInMap_action f) es (Undefined, calls, visited) =
     (Undefined, calls @ es, visited + length es)"
  by (induction es arbitrary: calls visited) (auto simp: findInMap_action_def)

lemma fold_action_done:
  "r \<noteq> Undefined \<Longrightarrow>
   fold (findInMap_action f) es (r, calls, visited) = (r, calls, visited + length es)"
  by (induction es arbitrary: visited) (auto simp: findInMap_action_def)

lemma fold_action_hit:
  assumes "\<forall>(key', v') \<in> set pre. f v' key' = Undefined" and "f v key \<noteq> Undefined"
  shows "fold (findInMap_action f) (pre @ (key, v) # post) (Undefined, calls, visited) =
         (f v key, calls @ pre @ [(key, v)], visited + length (pre @ (key, v) # post))"
proof -
  have 1: "fold (findInMap_action f) pre (Undefined, calls, visited) =
           (Undefined, calls @ pre, visited + length pre)"
    using assms(1) by (rule fold_action_none)
  have 2: "findInMap_action f (key, v) (Undefined, calls @ pre, visited + length pre) =
           (f v key, calls @ pre @ [(key, v)], Suc (visited + length pre))"
    by (simp add: findInMap_action_def)
  have 3: "fold (findInMap_action f) post
             (f v key, calls @ pre @ [(key, v)], Suc (visited + length pre)) =
           (f v key, calls @ pre @ [(key, v)], Suc (visited + length pre) + length post)"
    using assms(2) by (rule fold_action_done)
  show ?thesis
    by (simp add: 1 2 3)
qed

lemma findInMap_forEach:
  "findInMap False m f = fold (findInMap_action f) (Map_entries m) (Undefined, [], 0)"
  by (simp add: findInMap_def forEach_entries findInMap_action_def)

lemma findInMap_none:
  assumes "\<forall>(key, v) \<in> set (Map_entries m). f v key = Undefined"
  shows "findInMap usingES6NativeMaps m f =
         (Undefined, Map_entries m, length (Map_entries m))"
proof (cases usingES6NativeMaps)
  case True
  with assms show ?thesis
    by (simp add: findInMap_def findInMap_iter_none)
next
  case False
  with assms show ?thesis
    by (simp add: findInMap_forEach fold_action_none)
qed

lemma findInMap_hit:
  assumes e: "Map_entries m = pre @ (key, v) # post"
    and p: "\<forall>(key', v') \<in> set pre. f v' key' = Undefined" and h: "f v key \<noteq> Undefined"
  shows "findInMap usingES6NativeMaps m f =
         (f v key, pre @ [(key, v)],
          if usingES6NativeMaps then Suc (length pre) else length (Map_entries m))"
proof (cases usingES6NativeMaps)
  case True
  then show ?thesis
    using findInMap_iter_hit [OF p h, of post "[]" 0] by (simp add: findInMap_def e)
next
  case False
  then show ?thesis
    using fold_action_hit [OF p h, of post "[]" 0] by (simp add: findInMap_forEach e)
qed

text \<open>
  Claim C2, as amended. Let the entries of the map be taken in iteration order. When
  \<open>f\<close> is \<open>undefined\<close> on all of them, which includes the empty map, \<open>findInMap\<close>
  returns \<open>undefined\<close>. Otherwise it returns the result of \<open>f\<close> at the first entry
  where that is not \<open>undefined\<close>, and \<open>f\<close> has been applied to the entries up to that
  one and to no later entry. With ES6 native maps the iteration stops at that entry.
  Without them \<open>forEach\<close> visits every entry of the map, and the callback does not
  apply \<open>f\<close> to the later ones.
\<close>

theorem C2_findInMap:
  "((\<forall>(key, v) \<in> set (Map_entries m). f v key = Undefined) \<longrightarrow>
      findInMap usingES6NativeMaps m f =
        (Undefined, Map_entries m, length (Map_entries m))) \<and>
   (Map_entries m = pre @ (key, v) # post \<and>
    (\<forall>(key', v') \<in> set pre. f v' key' = Undefined) \<and> f v key \<noteq> Undefined \<longrightarrow>
      findInMap usingES6NativeMaps m f =
        (f v key, pre @ [(key, v)],
         if usingES6NativeMaps then Suc (length pre) else length (Map_entries m)))"
  using findInMap_none [of m f usingES6NativeMaps]
    findInMap_hit [of m pre key v post f usingES6NativeMaps]
  by blast

lemma Map_entries_createMap2:
  "Map_entries (createMap (Some [(''x'', Value False), (''y'', Value True)])) =
     [(''x'', Value False), (''y'', Value True)]"
  by (simp add: Map_entries_wf createMap_wf)
     (simp add: createMap_def ShimMap_set_def ShimMap_new_def JS_set_def
        createDictionaryModeObject_eq)

text \<open>
  The amended claim on a map of two entries: a function that is \<open>undefined\<close>
  everywhere, and one whose first result counts, on the path of ES6 native maps.
\<close>

theorem C2_findInMap_witness:
  "findInMap True (createMap (Some [(''x'', Value False), (''y'', Value True)]))
     (\<lambda>v key. Undefined :: bool JSValue) =
     (Undefined, [(''x'', Value False), (''y'', Value True)], 2) \<and>
   findInMap True (createMap (Some [(''x'', Value False), (''y'', Value True)]))
     (\<lambda>v key. v) = (Value False, [(''x'', Value False)], 1)"
  using C2_findInMap [where m = "createMap (Some [(''x'', Value False), (''y'', Value True)])"
      and f = "\<lambda>v key. Undefined :: bool JSValue" and usingES6NativeMaps = True]
    C2_findInMap [where m = "createMap (Some [(''x'', Value False), (''y'', Value True)])"
      and f = "\<lambda>v key. v" and pre = "[]" and key = "''x''" and v = "Value False"
      and post = "[(''y'', Value True)]" and usingES6NativeMaps = True]
  by (simp add: Map_entries_createMap2)

text \<open>
  The claim as first stated has the iteration stop at the first entry whose result
  counts. Without ES6 native maps it does not: on a map of two entries, with a
  function whose result at the first entry is returned, \<open>forEach\<close> visits both.
\<close>

theorem C2_findInMap_counterexample:
  "findInMap False (createMap (Some [(''x'', Value False), (''y'', Value True)]))
     (\<lambda>v key. v) = (Value False, [(''x'', Value False)], 2)"
  using findInMap_hit [where m = "createMap (Some [(''x'', Value False), (''y'', Value True)])"
      and f = "\<lambda>v key. v" and pre = "[]" and key = "''x''" and v = "Value False"
      and post = "[(''y'', Value True)]" and usingES6NativeMaps = False]
  by (simp add: Map_entries_createMap2)

section \<open>\<open>mapsAreEqual\<close>\<close>

lemma someInIterator_iff: "someInIterator xs p = (\<exists>x \<in> set xs. p x)"
  by (induction xs) auto

lemma fold_found: "fold (\<lambda>(key, v) found. found \<or> p v key) es found = (found \<or> (\<exists>(key, v) \<in> set es. p v key))"
  by (induction es arbitrary: found) auto

lemma someInMap_iff: "someInMap b m p = (\<exists>(key, v) \<in> set (Map_entries m). p v key)"
  by (cases b) (simp_all add: someInMap_def someInIterator_iff forEach_entries fold_found)

lemma someKeyInMap_iff: "someKeyInMap b m p = (\<exists>key \<in> set (Map_keys m). p key)"
proof -
  have "(\<exists>(key, v) \<in> set es. p key) = (\<exists>key \<in> set (map fst es). p key)"
    for es :: "(string \<times> 'a JSValue) list"
    by (induction es) auto
  then show ?thesis
    by (cases b) (simp_all add: someKeyInMap_def someInIterator_iff someInMap_iff Map_keys_def)
qed

lemma Map_keys_wf: "ShimMap_wf m \<Longrightarrow> ShimMap_has m k = (k \<in> set (Map_keys m))"
  by (simp add: ShimMap_has_wf Map_keys_def Map_entries_wf)

lemma Map_entries_get:
  "ShimMap_wf m \<Longrightarrow> (k, v) \<in> set (Map_entries m) \<Longrightarrow> ShimMap_get m k = v"
  by (simp add: Map_entries_wf ShimMap_get_wf ShimMap_wf_def)

lemma Map_entries_key_get:
  "k \<in> set (Map_keys m) \<Longrightarrow> (k, ShimMap_get m k) \<in> set (Map_entries m)"
  by (auto simp: Map_keys_def Map_entries_def ShimMap_get_def)

lemma mapsAreEqual_same: "mapsAreEqual b h r r eq"
  by (simp add: mapsAreEqual_def)

lemma mapsAreEqual_nullish:
  "isNullish l \<noteq> isNullish r \<Longrightarrow> \<not> mapsAreEqual b h l r eq"
  by (cases l; cases r) (simp_all add: mapsAreEqual_def isNullish_def)

lemma mapsAreEqual_distinct:
  assumes "l \<noteq> r" and wl: "ShimMap_wf (h l)" and wr: "ShimMap_wf (h r)"
  shows "mapsAreEqual b h (At l) (At r) eq =
         (set (Map_keys (h l)) = set (Map_keys (h r)) \<and>
          (\<forall>k \<in> set (Map_keys (h l)). valuesEqual eq (ShimMap_get (h l) k) (ShimMap_get (h r) k)))"
proof -
  let ?P = "\<lambda>leftValue leftKey.
              if \<not> ShimMap_has (h r) leftKey then True
              else (let rightValue = ShimMap_get (h r) leftKey
                    in \<not> (case eq of Some e \<Rightarrow> e leftValue rightValue
                             | None \<Rightarrow> strictEquals leftValue rightValue))"
  have P: "?P v k = (\<not> (k \<in> set (Map_keys (h r)) \<and> valuesEqual eq v (ShimMap_get (h r) k)))" for v k
    by (simp add: Map_keys_wf [OF wr] valuesEqual_def Let_def)
  have left: "someInMap b (h l) ?P =
     (\<not> (\<forall>k \<in> set (Map_keys (h l)). k \<in> set (Map_keys (h r)) \<and>
            valuesEqual eq (ShimMap_get (h l) k) (ShimMap_get (h r) k)))"
  proof -
    let ?Q = "\<lambda>k v. k \<in> set (Map_keys (h r)) \<and> valuesEqual eq v (ShimMap_get (h r) k)"
    have "(\<forall>(k, v) \<in> set (Map_entries (h l)). ?Q k v) =
          (\<forall>k \<in> set (Map_keys (h l)). ?Q k (ShimMap_get (h l) k))"
    proof
      assume all: "\<forall>(k, v) \<in> set (Map_entries (h l)). ?Q k v"
      show "\<forall>k \<in> set (Map_keys (h l)). ?Q k (ShimMap_get (h l) k)"
      proof
        fix k assume "k \<in> set (Map_keys (h l))"
        then have "(k, ShimMap_get (h l) k) \<in> set (Map_entries (h l))"
          by (rule Map_entries_key_get)
        with all show "?Q k (ShimMap_get (h l) k)" by blast
      qed
    next
      assume all: "\<forall>k \<in> set (Map_keys (h l)). ?Q k (ShimMap_get (h l) k)"
      show "\<forall>(k, v) \<in> set (Map_entries (h l)). ?Q k v"
      proof (clarify)
        fix k v assume kv: "(k, v) \<in> set (Map_entries (h l))"
        then have "k \<in> set (Map_keys (h l))"
          by (force simp: Map_keys_def)
        moreover have "ShimMap_get (h l) k = v"
          using wl kv by (rule Map_entries_get)
        ultimately show "k \<in> set (Map_keys (h r)) \<and> valuesEqual eq v (ShimMap_get (h r) k)"
          using all by blast
      qed
    qed
    then have E: "(\<not> (\<forall>(k, v) \<in> set (Map_entries (h l)). ?Q k v)) =
          (\<not> (\<forall>k \<in> set (Map_keys (h l)). ?Q k (ShimMap_get (h l) k)))"
      by (rule arg_cong)
    have "someInMap b (h l) ?P = (\<exists>(k, v) \<in> set (Map_entries (h l)). \<not> ?Q k v)"
      unfolding someInMap_iff P by (rule refl)
    also have "\<dots> = (\<not> (\<forall>(k, v) \<in> set (Map_entries (h l)). ?Q k v))"
      by blast
    finally show ?thesis
      unfolding E .
  qed
  have right: "someKeyInMap b (h r) (\<lambda>rightKey. \<not> ShimMap_has (h l) rightKey) =
     (\<not> set (Map_keys (h r)) \<subseteq> set (Map_keys (h l)))"
    by (auto simp: someKeyInMap_iff Map_keys_wf [OF wl])
  have "mapsAreEqual b h (At l) (At r) eq =
          (\<not> someInMap b (h l) ?P \<and>
           \<not> someKeyInMap b (h r) (\<lambda>rightKey. \<not> ShimMap_has (h l) rightKey))"
    using assms(1) by (simp add: mapsAreEqual_def Let_def)
  then show ?thesis
    unfolding left right by blast
qed

text \<open>
  Claim C5. \<open>mapsAreEqual\<close> is true of an argument and itself, whatever the
  comparison. It is false when one argument is \<open>null\<close> or \<open>undefined\<close> and the other
  is a map. On two maps at different addresses it is true exactly when both have the
  same keys and, under every key, the value on the left and the value on the right are
  equal by \<open>valuesAreEqual\<close>, or by \<open>===\<close> when no comparison is given.
\<close>

theorem C5_mapsAreEqual:
  "mapsAreEqual usingES6NativeMaps h r r eq \<and>
   (isNullish l \<noteq> isNullish r \<longrightarrow> \<not> mapsAreEqual usingES6NativeMaps h l r eq) \<and>
   (x \<noteq> y \<and> ShimMap_wf (h x) \<and> ShimMap_wf (h y) \<longrightarrow>
      mapsAreEqual usingES6NativeMaps h (At x) (At y) eq =
        (set (Map_keys (h x)) = set (Map_keys (h y)) \<and>
         (\<forall>k \<in> set (Map_keys (h x)).
            valuesEqual eq (ShimMap_get (h x) k) (ShimMap_get (h y) k))))"
  by (simp add: mapsAreEqual_same mapsAreEqual_nullish mapsAreEqual_distinct)


lemma Map_entries_createMap1:
  "Map_entries (createMap (Some [(k, v)])) = [(k, v)]"
  by (simp add: Map_entries_wf createMap_wf)
     (simp add: createMap_def ShimMap_set_def ShimMap_new_def JS_set_def
        createDictionaryModeObject_eq)

text \<open>
  The claim on two maps of one entry each, held at different addresses.
\<close>

theorem C5_mapsAreEqual_witness:
  "mapsAreEqual False (\<lambda>_. createMap (Some [(''a'', Value True)])) (At 0) (At 0) None \<and>
   \<not> mapsAreEqual False (\<lambda>_. createMap (Some [(''a'', Value True)])) Null (At 0) None \<and>
   mapsAreEqual False (\<lambda>_. createMap (Some [(''a'', Value True)])) (At 0) (At 1) None"
proof -
  have g: "ShimMap_get (createMap (Some [(''a'', Value True)])) ''a'' = Value True"
    by (simp add: createMap_def ShimMap_get_set_same)
  show ?thesis
    using C5_mapsAreEqual [where h = "\<lambda>_. createMap (Some [(''a'', Value True)])"
        and usingES6NativeMaps = False and r = "At 0" and l = Null and eq = None and x = 0 and y = 1]
    by (simp add: isNullish_def createMap_wf Map_keys_def Map_entries_createMap1
        valuesEqual_def strictEquals_def g)
qed

section \<open>From a map to a record and back\<close>

lemma update_new: "k \<notin> fst ` set al \<Longrightarrow> AList.update k v al = al @ [(k, v)]"
  by (induction al) auto















section \<open>\<open>equalOwnProperties\<close> is not symmetric\<close>

text \<open>
  Claim C10. With the default comparison, \<open>equalOwnProperties\<close> is not symmetric.
  Let \<open>a\<close> be a record whose one own key \<open>k\<close> holds \<open>undefined\<close>, and \<open>b\<close> a
  record with no own key, where \<open>k\<close> is not a name that the records inherit. Then
  \<open>equalOwnProperties(a, b)\<close> is true and \<open>equalOwnProperties(b, a)\<close> is false: the
  first loop's test of \<open>!hasOwnProperty.call(right, key) === undefined\<close> never holds,
  and \<open>left[key]\<close> and \<open>right[key]\<close> are both \<open>undefined\<close>.
\<close>

theorem C10_equalOwnProperties_not_symmetric:
  assumes "x \<noteq> y" and "k \<notin> fst ` set inh"
    and "h x = \<lparr>own = [(k, Undefined)], inherited = inh\<rparr>"
    and "h y = \<lparr>own = [], inherited = inh\<rparr>"
  shows "equalOwnProperties h (At x) (At y) None \<and> \<not> equalOwnProperties h (At y) (At x) None"
proof -
  have "map_of inh k = None"
    using assms(2) by (simp add: map_of_eq_None_iff)
  then have get: "JS_get (h x) k = Undefined" "JS_get (h y) k = Undefined"
    by (simp_all add: assms JS_get_def)
  show ?thesis
    using assms(1) get
    by (simp add: equalOwnProperties_def JS_for_in_def hasOwnProperty_def
        boolean_strictEquals_undefined_def strictEquals_def assms(3,4))
qed

text \<open>
  The claim at the key \<open>a\<close>, on records that inherit \<open>toString\<close>.
\<close>

theorem C10_equalOwnProperties_not_symmetric_witness:
  "equalOwnProperties
     (\<lambda>a. if a = 0 then \<lparr>own = [(''a'', Undefined)], inherited = [(''toString'', Value True)]\<rparr>
           else \<lparr>own = [], inherited = [(''toString'', Value True)]\<rparr>)
     (At 0) (At 1) None \<and>
   \<not> equalOwnProperties
     (\<lambda>a. if a = 0 then \<lparr>own = [(''a'', Undefined)], inherited = [(''toString'', Value True)]\<rparr>
           else \<lparr>own = [], inherited = [(''toString'', Value True)]\<rparr>)
     (At 1) (At 0) None"
  using C10_equalOwnProperties_not_symmetric [where x = 0 and y = 1 and k = "''a''"
      and inh = "[(''toString'', Value True)]"
      and h = "\<lambda>a. if a = 0 then \<lparr>own = [(''a'', Undefined)], inherited = [(''toString'', Value True)]\<rparr>
           else \<lparr>own = [], inherited = [(''toString'', Value True)]\<rparr>"]
  by simp

section \<open>The order of \<open>sortInV8ObjectInsertionOrder\<close>\<close>













lemma decimalValue_examples:
  "decimalValue ''0'' = 0" "decimalValue ''2'' = 2" "decimalValue ''10'' = 10"
  by (simp_all add: decimalValue_def digitValue_def)

lemma looksLikeNatural_examples:
  "looksLikeNatural ''0''" "\<not> looksLikeNatural ''08''" "\<not> looksLikeNatural []"
  "looksLikeNatural ''10''" "\<not> looksLikeNatural ''1a''" "\<not> looksLikeNatural ''-1''"
  by (simp_all add: looksLikeNatural_def isDigit_def)

section \<open>No key of a multi-map holds an empty array\<close>

lemma liveArray_mono:
  "liveArray mm x \<Longrightarrow> nextArray mm \<le> nextArray mm' \<Longrightarrow>
   (\<And>a. x = Value a \<Longrightarrow> arrays mm' a \<noteq> []) \<Longrightarrow> liveArray mm' x"
  by (cases x) auto

lemma MultiMap_inv_empty: "MultiMap_inv emptyMultiMap"
  by (simp add: MultiMap_inv_def emptyMultiMap_def createMap_wf)
     (simp add: createMap_def ShimMap_new_def createDictionaryModeObject_eq)

lemma wf_get_Value:
  "ShimMap_wf m \<Longrightarrow> (ShimMap_get m k = Value a) = ((k, Value a) \<in> set (own (data m)))"
proof -
  assume wf: "ShimMap_wf m"
  have "(ShimMap_get m k = Value a) = (map_of (own (data m)) k = Some (Value a))"
    using wf by (simp add: ShimMap_get_wf split: option.splits)
  also have "\<dots> = ((k, Value a) \<in> set (own (data m)))"
    using wf by (simp add: ShimMap_wf_def)
  finally show ?thesis .
qed

lemma inv_entry:
  "MultiMap_inv mm \<Longrightarrow> (k, x) \<in> set (own (data (table mm))) \<Longrightarrow>
   \<exists>a. x = Value a \<and> a < nextArray mm \<and> arrays mm a \<noteq> []"
  by (cases x) (auto simp: MultiMap_inv_def)

lemma inv_array:
  "MultiMap_inv mm \<Longrightarrow> p \<in> set (own (data (table mm))) \<Longrightarrow> snd p = Value b \<Longrightarrow>
   arrays mm b \<noteq> []"
  by (cases p) (auto dest: inv_entry)

lemma inv_has:
  assumes "MultiMap_inv mm" and "ShimMap_has (table mm) k"
  shows "\<exists>a. ShimMap_get (table mm) k = Value a \<and> arrays mm a \<noteq> []"
proof -
  have wf: "ShimMap_wf (table mm)"
    using assms(1) by (simp add: MultiMap_inv_def)
  from assms(2) obtain x where x: "(k, x) \<in> set (own (data (table mm)))"
    by (auto simp: ShimMap_has_wf [OF wf])
  with inv_entry [OF assms(1) x] show ?thesis
    by (auto simp: wf_get_Value [OF wf])
qed

lemma inv_absent:
  assumes "MultiMap_inv mm" and "\<forall>a. ShimMap_get (table mm) k \<noteq> Value a"
  shows "k \<notin> fst ` set (own (data (table mm)))"
proof
  assume "k \<in> fst ` set (own (data (table mm)))"
  then have "ShimMap_has (table mm) k"
    using assms(1) by (simp add: MultiMap_inv_def ShimMap_has_wf)
  from inv_has [OF assms(1) this] assms(2) show False by blast
qed

lemma multiMapAdd_present:
  "ShimMap_get (table mm) k = Value a \<Longrightarrow>
   multiMapAdd mm k v = (a, mm\<lparr>arrays := (arrays mm)(a := arrays mm a @ [v])\<rparr>)"
  by (simp add: multiMapAdd_def)

lemma multiMapAdd_absent:
  "\<forall>a. ShimMap_get (table mm) k \<noteq> Value a \<Longrightarrow>
   multiMapAdd mm k v =
     (nextArray mm,
      mm\<lparr>arrays := (arrays mm)(nextArray mm := [v]), nextArray := Suc (nextArray mm),
         table := ShimMap_set (table mm) k (Value (nextArray mm))\<rparr>)"
  by (cases "ShimMap_get (table mm) k") (simp_all add: multiMapAdd_def setAndReturn_def Let_def)

lemma inv_add:
  assumes inv: "MultiMap_inv mm"
  shows "MultiMap_inv (snd (multiMapAdd mm k v))"
proof (cases "\<exists>a. ShimMap_get (table mm) k = Value a")
  case True
  then obtain a where a: "ShimMap_get (table mm) k = Value a" by blast
  let ?mm' = "mm\<lparr>arrays := (arrays mm)(a := arrays mm a @ [v])\<rparr>"
  have "liveArray ?mm' (snd p)" if "p \<in> set (own (data (table mm)))" for p
  proof (rule liveArray_mono)
    show "liveArray mm (snd p)"
      using inv that by (simp add: MultiMap_inv_def)
    show "nextArray mm \<le> nextArray ?mm'" by simp
    show "arrays ?mm' b \<noteq> []" if "snd p = Value b" for b
      using inv_array [OF inv \<open>p \<in> set (own (data (table mm)))\<close> that] by simp
  qed
  then show ?thesis
    using inv by (simp add: multiMapAdd_present [OF a] MultiMap_inv_def)
next
  case False
  then have no: "\<forall>a. ShimMap_get (table mm) k \<noteq> Value a" by blast
  let ?es = "own (data (table mm))"
  let ?n = "nextArray mm"
  let ?mm' = "mm\<lparr>arrays := (arrays mm)(?n := [v]), nextArray := Suc ?n,
                 table := ShimMap_set (table mm) k (Value ?n)\<rparr>"
  have new: "k \<notin> fst ` set ?es"
    using inv no by (rule inv_absent)
  have own': "own (data (ShimMap_set (table mm) k (Value ?n))) = ?es @ [(k, Value ?n)]"
    using new by (simp add: ShimMap_set_def JS_set_def update_new)
  have fresh: "Value ?n \<notin> snd ` set ?es"
  proof
    assume "Value ?n \<in> snd ` set ?es"
    then obtain k' where "(k', Value ?n) \<in> set ?es" by force
    from inv_entry [OF inv this] show False by simp
  qed
  have old: "liveArray ?mm' (snd p)" if "p \<in> set ?es" for p
  proof (rule liveArray_mono)
    show "liveArray mm (snd p)"
      using inv that by (simp add: MultiMap_inv_def)
    show "nextArray mm \<le> nextArray ?mm'" by simp
    show "arrays ?mm' b \<noteq> []" if "snd p = Value b" for b
      using inv_array [OF inv \<open>p \<in> set ?es\<close> that] inv_entry [OF inv, of "fst p" "snd p"]
        \<open>p \<in> set ?es\<close> that
      by auto
  qed
  have "ShimMap_wf (ShimMap_set (table mm) k (Value ?n))"
    using inv by (simp add: MultiMap_inv_def ShimMap_set_wf)
  moreover have "distinct (map snd (?es @ [(k, Value ?n)]))"
    using inv fresh by (simp add: MultiMap_inv_def)
  moreover have "\<forall>p \<in> set (?es @ [(k, Value ?n)]). liveArray ?mm' (snd p)"
    using old by auto
  ultimately show ?thesis
    by (simp add: multiMapAdd_absent [OF no] MultiMap_inv_def own')
qed

lemma multiMapRemove_absent:
  "\<forall>a. ShimMap_get (table mm) k \<noteq> Value a \<Longrightarrow> multiMapRemove mm k v = mm"
  by (cases "ShimMap_get (table mm) k") (simp_all add: multiMapRemove_def)

lemma multiMapRemove_present:
  "ShimMap_get (table mm) k = Value a \<Longrightarrow>
   multiMapRemove mm k v =
     (if unorderedRemoveItem (arrays mm a) v = []
      then mm\<lparr>arrays := (arrays mm)(a := unorderedRemoveItem (arrays mm a) v),
              table := snd (ShimMap_delete (table mm) k)\<rparr>
      else mm\<lparr>arrays := (arrays mm)(a := unorderedRemoveItem (arrays mm a) v)\<rparr>)"
  by (simp add: multiMapRemove_def Let_def)

lemma own_delete:
  "ShimMap_has m k \<Longrightarrow>
   own (data (snd (ShimMap_delete m k))) = filter (\<lambda>p. fst p \<noteq> k) (own (data m))"
  by (auto simp: ShimMap_delete_def JS_delete_def AList.delete_eq intro!: filter_cong)

lemma distinct_snd_unique:
  "distinct (map snd es) \<Longrightarrow> (k, x) \<in> set es \<Longrightarrow> (k', x) \<in> set es \<Longrightarrow> k = k'"
  using inj_onD [of snd "set es" "(k, x)" "(k', x)"] by (simp add: distinct_map)

lemma inv_remove:
  assumes inv: "MultiMap_inv mm"
  shows "MultiMap_inv (multiMapRemove mm k v)"
proof (cases "\<exists>a. ShimMap_get (table mm) k = Value a")
  case False
  then show ?thesis
    using inv by (simp add: multiMapRemove_absent)
next
  case True
  then obtain a where a: "ShimMap_get (table mm) k = Value a" by blast
  let ?es = "own (data (table mm))"
  let ?r = "unorderedRemoveItem (arrays mm a) v"
  have wf: "ShimMap_wf (table mm)" and ds: "distinct (map snd ?es)"
    using inv by (simp_all add: MultiMap_inv_def)
  have ka: "(k, Value a) \<in> set ?es"
    using a by (simp add: wf_get_Value [OF wf])
  show ?thesis
  proof (cases "?r = []")
    case False
    let ?mm' = "mm\<lparr>arrays := (arrays mm)(a := ?r)\<rparr>"
    have "liveArray ?mm' (snd p)" if "p \<in> set ?es" for p
    proof (rule liveArray_mono)
      show "liveArray mm (snd p)"
        using inv that by (simp add: MultiMap_inv_def)
      show "nextArray mm \<le> nextArray ?mm'" by simp
      show "arrays ?mm' b \<noteq> []" if "snd p = Value b" for b
        using inv_array [OF inv \<open>p \<in> set ?es\<close> that] False by simp
    qed
    then show ?thesis
      using False wf ds by (simp add: multiMapRemove_present [OF a] MultiMap_inv_def)
  next
    case True
    have has: "ShimMap_has (table mm) k"
      using ka by (force simp: ShimMap_has_wf [OF wf])
    let ?es' = "filter (\<lambda>p. fst p \<noteq> k) ?es"
    let ?mm' = "mm\<lparr>arrays := (arrays mm)(a := ?r), table := snd (ShimMap_delete (table mm) k)\<rparr>"
    have own': "own (data (snd (ShimMap_delete (table mm) k))) = ?es'"
      using has by (rule own_delete)
    have "liveArray ?mm' (snd p)" if "p \<in> set ?es'" for p
    proof (rule liveArray_mono)
      from that have in_es: "p \<in> set ?es" and ne: "fst p \<noteq> k" by auto
      show "liveArray mm (snd p)"
        using inv in_es by (simp add: MultiMap_inv_def)
      show "nextArray mm \<le> nextArray ?mm'" by simp
      show "arrays ?mm' b \<noteq> []" if b: "snd p = Value b" for b
      proof -
        have "(fst p, Value b) \<in> set ?es"
          using in_es b by (metis prod.collapse)
        then have "b \<noteq> a"
          using distinct_snd_unique [OF ds ka, of "fst p"] ne by auto
        moreover have "arrays mm b \<noteq> []"
          using inv_entry [OF inv \<open>(fst p, Value b) \<in> set ?es\<close>] by simp
        ultimately show ?thesis by simp
      qed
    qed
    moreover have "distinct (map snd ?es')"
      using ds by (rule distinct_map_filter)
    moreover have "ShimMap_wf (snd (ShimMap_delete (table mm) k))"
      using wf by (rule ShimMap_delete_wf)
    ultimately show ?thesis
      using True by (simp add: multiMapRemove_present [OF a] MultiMap_inv_def own')
  qed
qed

lemma inv_applyMultiMapOp: "MultiMap_inv mm \<Longrightarrow> MultiMap_inv (applyMultiMapOp op mm)"
  by (cases op) (simp_all add: inv_add inv_remove)

lemma inv_fold: "MultiMap_inv mm \<Longrightarrow> MultiMap_inv (fold applyMultiMapOp ops mm)"
  by (induction ops arbitrary: mm) (simp_all add: inv_applyMultiMapOp)

lemma inv_runMultiMap: "MultiMap_inv (runMultiMap ops)"
  by (simp add: runMultiMap_def inv_fold MultiMap_inv_empty)

lemma unorderedRemoveItem_single: "unorderedRemoveItem [v] v = []"
  by (simp add: unorderedRemoveItem_def)

lemma add_then_remove:
  assumes inv: "MultiMap_inv mm" and absent: "\<not> ShimMap_has (table mm) k"
  shows "\<not> ShimMap_has (table (multiMapRemove (snd (multiMapAdd mm k v)) k v)) k"
proof -
  have wf: "ShimMap_wf (table mm)"
    using inv by (simp add: MultiMap_inv_def)
  have "ShimMap_get (table mm) k = Undefined"
    using wf absent by (rule ShimMap_get_absent)
  then have no: "\<forall>a. ShimMap_get (table mm) k \<noteq> Value a" by simp
  let ?n = "nextArray mm"
  let ?mm' = "mm\<lparr>arrays := (arrays mm)(?n := [v]), nextArray := Suc ?n,
                 table := ShimMap_set (table mm) k (Value ?n)\<rparr>"
  have add: "snd (multiMapAdd mm k v) = ?mm'"
    by (simp add: multiMapAdd_absent [OF no])
  have get': "ShimMap_get (table ?mm') k = Value ?n"
    by (simp add: ShimMap_get_set_same)
  have "table (multiMapRemove ?mm' k v) = snd (ShimMap_delete (ShimMap_set (table mm) k (Value ?n)) k)"
    by (simp add: multiMapRemove_present [OF get'] unorderedRemoveItem_single)
  moreover have "ShimMap_wf (ShimMap_set (table mm) k (Value ?n))"
    using wf by (rule ShimMap_set_wf)
  ultimately show ?thesis
    by (simp add: add ShimMap_has_delete)
qed

text \<open>
  Claim C4. In a multi-map built from the empty one by any run of \<open>multiMapAdd\<close> and
  \<open>multiMapRemove\<close>, a key that is present holds an array, and that array is not empty.
  When \<open>k\<close> is absent, \<open>multiMapAdd(map, k, v)\<close> followed by
  \<open>multiMapRemove(map, k, v)\<close> leaves \<open>k\<close> absent.
\<close>

theorem C4_multiMap_no_empty_array:
  "(ShimMap_has (table (runMultiMap ops)) k \<longrightarrow>
      (\<exists>a. ShimMap_get (table (runMultiMap ops)) k = Value a \<and> arrays (runMultiMap ops) a \<noteq> [])) \<and>
   (\<not> ShimMap_has (table (runMultiMap ops)) k \<longrightarrow>
      \<not> ShimMap_has
          (table (multiMapRemove (snd (multiMapAdd (runMultiMap ops) k v)) k v)) k)"
  using inv_has [OF inv_runMultiMap, of ops k] add_then_remove [OF inv_runMultiMap, of ops k v]
  by blast

lemma multiMap_scenario:
  "ShimMap_get (table (runMultiMap [Add ''k'' True, Add ''k'' False, Remove ''k'' True])) ''k'' =
     Value 0"
  "arrays (runMultiMap [Add ''k'' True, Add ''k'' False, Remove ''k'' True]) 0 = [False]"
  "\<not> ShimMap_has (table (runMultiMap
      [Add ''k'' True, Add ''k'' False, Remove ''k'' True, Remove ''k'' False])) ''k''"
  by code_simp+


text \<open>
  The claim after two additions and a removal under one key, and on a key that is
  absent.
\<close>

theorem C4_multiMap_no_empty_array_witness:
  "(\<exists>a. ShimMap_get (table (runMultiMap [Add ''k'' True, Add ''k'' False, Remove ''k'' True]))
          ''k'' = Value a \<and>
        arrays (runMultiMap [Add ''k'' True, Add ''k'' False, Remove ''k'' True]) a \<noteq> []) \<and>
   \<not> ShimMap_has
       (table (multiMapRemove
                 (snd (multiMapAdd (runMultiMap [Remove ''j'' True]) ''k'' True)) ''k'' True))
       ''k''"
proof -
  have 1: "ShimMap_has (table (runMultiMap [Add ''k'' True, Add ''k'' False, Remove ''k'' True])) ''k''"
    by code_simp
  have 2: "\<not> ShimMap_has (table (runMultiMap [Remove ''j'' True])) ''k''"
    by code_simp
  show ?thesis
    using C4_multiMap_no_empty_array [of "[Add ''k'' True, Add ''k'' False, Remove ''k'' True]" "''k''"]
      C4_multiMap_no_empty_array [of "[Remove ''j'' True]" "''k''" True] 1 2
    by blast
qed

end
